theory Spec2Isabelle
  imports Complex_Main "HOL-Library.Numeral_Type"
begin

section \<open>Errors and tensors\<close>

text \<open>
  Every exception that the modelled code (or the torch operation it calls) can raise is
  a value of \<open>error\<close>; a fallible function returns \<open>error + 'a\<close> with \<open>Inl\<close> the
  exception.
\<close>

datatype error =
    ZeroDivisionError
  | AssertionError
  | NotImplementedError
  | ValueError
  | BroadcastError
  | ChannelMismatch
  | KernelSizeError
  | PixelShuffleError
  | TopkRangeError
  | IndexTypeError
  | IndexError
  | NegativeDimensionError
  | UnpackError
  | ViewError
  | OverflowError

definition ebind :: "error + 'a \<Rightarrow> ('a \<Rightarrow> error + 'b) \<Rightarrow> error + 'b" where
  "ebind m f = (case m of Inl e \<Rightarrow> Inl e | Inr v \<Rightarrow> f v)"

text \<open>
  A tensor in (batch, channel, height, width) layout: its shape and its element at an
  index. Only the elements at indices inside the shape belong to the tensor, so two
  tensors are the same tensor when \<open>tensor_equiv\<close> holds.
\<close>

type_synonym shape = "nat \<times> nat \<times> nat \<times> nat"

datatype 'a tensor = Tensor (shape: shape) (elem: "nat \<Rightarrow> nat \<Rightarrow> nat \<Rightarrow> nat \<Rightarrow> 'a")


definition new_zeros :: "shape \<Rightarrow> ('a::zero) tensor" where
  "new_zeros s = Tensor s (\<lambda>n ch i j. 0)"

text \<open>
  Python slice bounds: a negative bound counts from the end, and both bounds are clipped
  to the dimension. \<open>slice_bounds n a b\<close> is the first index and the length of \<open>[a:b]\<close>
  on a dimension of size \<open>n\<close>.
\<close>

definition clip_index :: "nat \<Rightarrow> int \<Rightarrow> nat" where
  "clip_index n i = (if i < 0 then nat (max (int n + i) 0) else min (nat i) n)"

definition slice_bounds :: "nat \<Rightarrow> int \<Rightarrow> int \<Rightarrow> nat \<times> nat" where
  "slice_bounds n a b = (clip_index n a, clip_index n b - clip_index n a)"

text \<open>\<open>t[:, :, y0:y1, x0:x1]\<close>\<close>

definition slice_hw :: "'a tensor \<Rightarrow> int \<Rightarrow> int \<Rightarrow> int \<Rightarrow> int \<Rightarrow> 'a tensor" where
  "slice_hw t y0 y1 x0 x1 =
     (case shape t of (b, c, h, w) \<Rightarrow>
        (case slice_bounds h y0 y1 of (ys, yl) \<Rightarrow>
           (case slice_bounds w x0 x1 of (xs, xl) \<Rightarrow>
              Tensor (b, c, yl, xl) (\<lambda>n ch i j. elem t n ch (ys + i) (xs + j)))))"

text \<open>
  \<open>dst[:, :, y0:y1, x0:x1] = src\<close>. torch broadcasts \<open>src\<close> to the shape of the slice
  (a dimension of size 1 is repeated) and raises when that is impossible.
\<close>

definition expands_to :: "nat \<Rightarrow> nat \<Rightarrow> bool" where
  "expands_to sd td \<longleftrightarrow> sd = td \<or> sd = 1"

definition bidx :: "nat \<Rightarrow> nat \<Rightarrow> nat" where
  "bidx sd i = (if sd = 1 then 0 else i)"

definition assign_hw ::
  "'a tensor \<Rightarrow> int \<Rightarrow> int \<Rightarrow> int \<Rightarrow> int \<Rightarrow> 'a tensor \<Rightarrow> error + 'a tensor" where
  "assign_hw dst y0 y1 x0 x1 src =
     (case shape dst of (b, c, h, w) \<Rightarrow>
        (case slice_bounds h y0 y1 of (ys, yl) \<Rightarrow>
           (case slice_bounds w x0 x1 of (xs, xl) \<Rightarrow>
              (case shape src of (sb, sc, sh, sw) \<Rightarrow>
                 if expands_to sb b \<and> expands_to sc c \<and> expands_to sh yl \<and> expands_to sw xl
                 then Inr (Tensor (b, c, h, w)
                        (\<lambda>n ch i j.
                           if ys \<le> i \<and> i < ys + yl \<and> xs \<le> j \<and> j < xs + xl
                           then elem src (bidx sb n) (bidx sc ch) (bidx sh (i - ys)) (bidx sw (j - xs))
                           else elem dst n ch i j))
                 else Inl BroadcastError))))"

section \<open>The tiled inference scheduler\<close>

text \<open>
  \<open>math.ceil(width / tile_size)\<close>. The quotient of two Python ints is a float: the
  double nearest to the exact quotient, or \<open>OverflowError\<close> when that is too large for a
  double; \<open>math.ceil\<close> rounds the float up. Division by zero raises.

  Two ints below \<open>2^53\<close> in absolute value are doubles themselves. For such \<open>a\<close> and
  \<open>d\<close> the exact quotient, when it is not an integer, is at least \<open>1 / \<bar>d\<bar>\<close> away from
  every integer, which is more than half the distance between neighbouring doubles
  of its size; so the rounding does not reach or cross an integer and the ceiling of the float is the
  ceiling of the exact quotient. Beyond this range the float quotient is the parameter
  \<open>float_quotient\<close> of the model.
\<close>

definition ceil_div :: "(int \<Rightarrow> int \<Rightarrow> error + real) \<Rightarrow> int \<Rightarrow> int \<Rightarrow> error + int" where
  "ceil_div float_quotient a d =
     (if d = 0 then Inl ZeroDivisionError
      else if \<bar>a\<bar> < 2 ^ 53 \<and> \<bar>d\<bar> < 2 ^ 53 then Inr \<lceil>real_of_int a / real_of_int d\<rceil>
      else ebind (float_quotient a d) (\<lambda>q. Inr \<lceil>q\<rceil>))"

text \<open>\<open>range(n)\<close> for a Python int \<open>n\<close>: empty when \<open>n \<le> 0\<close>.\<close>

definition py_range :: "int \<Rightarrow> int list" where
  "py_range n = map int [0..<nat n]"

definition tile_pad :: int where
  "tile_pad = 12"

text \<open>The coordinates computed in one iteration of the loop body of \<open>tile_inference\<close>.\<close>

record tile =
  x_start :: int
  y_start :: int
  x_end :: int
  y_end :: int
  x_start_pad :: int
  x_end_pad :: int
  y_start_pad :: int
  y_end_pad :: int
  out_x_start :: int
  out_x_end :: int
  out_y_start :: int
  out_y_end :: int
  out_x_start_valid :: int
  out_x_end_valid :: int
  out_y_start_valid :: int
  out_y_end_valid :: int

definition tile_bounds :: "int \<Rightarrow> int \<Rightarrow> int \<Rightarrow> int \<Rightarrow> int \<times> int \<Rightarrow> tile" where
  "tile_bounds sc tile_size height width idx =
     (case idx of (y_idx, x_idx) \<Rightarrow>
      let xs = x_idx * tile_size;
          ys = y_idx * tile_size;
          xe = min (xs + tile_size) width;
          ye = min (ys + tile_size) height;
          xsp = max (xs - tile_pad) 0;
          xep = min (xe + tile_pad) width;
          ysp = max (ys - tile_pad) 0;
          yep = min (ye + tile_pad) height;
          oxv = (xs - xsp) * sc;
          oyv = (ys - ysp) * sc
      in \<lparr> x_start = xs, y_start = ys, x_end = xe, y_end = ye,
           x_start_pad = xsp, x_end_pad = xep, y_start_pad = ysp, y_end_pad = yep,
           out_x_start = xs * sc, out_x_end = xe * sc,
           out_y_start = ys * sc, out_y_end = ye * sc,
           out_x_start_valid = oxv, out_x_end_valid = oxv + (xe - xs) * sc,
           out_y_start_valid = oyv, out_y_end_valid = oyv + (ye - ys) * sc \<rparr>)"

text \<open>
  The iteration order of the nested loops
  \<open>for y_idx in range(tiles_y): for x_idx in range(tiles_x)\<close>.
\<close>

definition tile_grid :: "int \<Rightarrow> int \<Rightarrow> (int \<times> int) list" where
  "tile_grid tiles_y tiles_x =
     concat (map (\<lambda>y_idx. map (\<lambda>x_idx. (y_idx, x_idx)) (py_range tiles_x)) (py_range tiles_y))"

text \<open>The padded tile \<open>y[:, :, y_start_pad:y_end_pad, x_start_pad:x_end_pad]\<close>.\<close>

definition padded_tile :: "'a tensor \<Rightarrow> tile \<Rightarrow> 'a tensor" where
  "padded_tile y t = slice_hw y (y_start_pad t) (y_end_pad t) (x_start_pad t) (x_end_pad t)"

text \<open>
  One iteration: cut the padded tile out of \<open>y\<close>, run the model on it, and copy the
  valid region of its output into \<open>output\<close>. An exception of the model or of the
  assignment ends the loop.
\<close>

definition tile_step ::
  "('a tensor \<Rightarrow> error + 'a tensor) \<Rightarrow> 'a tensor \<Rightarrow> tile \<Rightarrow> 'a tensor \<Rightarrow> error + 'a tensor" where
  "tile_step model y t output =
     ebind (model (padded_tile y t))
       (\<lambda>output_tile.
          assign_hw output (out_y_start t) (out_y_end t) (out_x_start t) (out_x_end t)
            (slice_hw output_tile (out_y_start_valid t) (out_y_end_valid t)
               (out_x_start_valid t) (out_x_end_valid t)))"

text \<open>
  The loop over the tiles. Beside the output tensor the loop state carries a counter of
  the calls of \<open>self.model\<close> made so far; the source has no such variable, it is added
  to state how often the model is invoked.
\<close>

fun run_tiles ::
  "('a tensor \<Rightarrow> error + 'a tensor) \<Rightarrow> 'a tensor \<Rightarrow> tile list \<Rightarrow> nat \<times> 'a tensor \<Rightarrow>
   nat \<times> (error + 'a tensor)" where
  "run_tiles model y [] (calls, output) = (calls, Inr output)"
| "run_tiles model y (t # ts) (calls, output) =
     (case tile_step model y t output of
        Inl e \<Rightarrow> (Suc calls, Inl e)
      | Inr output' \<Rightarrow> run_tiles model y ts (Suc calls, output'))"

text \<open>
  \<open>SeemoReUpscaler.tile_inference\<close>. The float division, the network \<open>self.model\<close> and
  its scale factor \<open>self.model.scale\<close> are the first three arguments.
  \<open>tile_inference_run\<close> gives the number of calls of the model together with the
  result, \<open>tile_inference\<close> the result.
\<close>

definition tile_inference_run ::
  "(int \<Rightarrow> int \<Rightarrow> error + real) \<Rightarrow> ('a::zero tensor \<Rightarrow> error + 'a tensor) \<Rightarrow> nat \<Rightarrow>
   'a tensor \<Rightarrow> int \<Rightarrow> nat \<times> (error + 'a tensor)" where
  "tile_inference_run float_quotient model sc y tile_size =
     (case shape y of (batch, channel, height, width) \<Rightarrow>
        let output = new_zeros (batch, channel, height * sc, width * sc)
        in (case ceil_div float_quotient (int width) tile_size of
              Inl e \<Rightarrow> (0, Inl e)
            | Inr tiles_x \<Rightarrow>
                (case ceil_div float_quotient (int height) tile_size of
                   Inl e \<Rightarrow> (0, Inl e)
                 | Inr tiles_y \<Rightarrow>
                     run_tiles model y
                       (map (tile_bounds (int sc) tile_size (int height) (int width))
                          (tile_grid tiles_y tiles_x))
                       (0, output))))"

definition tile_inference ::
  "(int \<Rightarrow> int \<Rightarrow> error + real) \<Rightarrow> ('a::zero tensor \<Rightarrow> error + 'a tensor) \<Rightarrow> nat \<Rightarrow>
   'a tensor \<Rightarrow> int \<Rightarrow> error + 'a tensor" where
  "tile_inference float_quotient model sc y tile_size =
     snd (tile_inference_run float_quotient model sc y tile_size)"

text \<open>
  The inference step of \<open>SeemoReUpscaler.__call__\<close>: the tiled scheduler is used only
  for a positive tile size, and whole-image inference otherwise.
\<close>

definition call_inference ::
  "(int \<Rightarrow> int \<Rightarrow> error + real) \<Rightarrow> ('a::zero tensor \<Rightarrow> error + 'a tensor) \<Rightarrow> nat \<Rightarrow>
   'a tensor \<Rightarrow> int \<Rightarrow> error + 'a tensor" where
  "call_inference float_quotient model sc y tile_size =
     (if tile_size > 0 then tile_inference float_quotient model sc y tile_size else model y)"

section \<open>Shapes of the torch operations the network uses\<close>

text \<open>
  Broadcasting of two sizes of one dimension, and of two 4-D shapes; torch raises when
  two sizes differ and neither is 1.
\<close>

definition broadcast_dim :: "nat \<Rightarrow> nat \<Rightarrow> error + nat" where
  "broadcast_dim a b =
     (if a = b then Inr a else if a = 1 then Inr b else if b = 1 then Inr a
      else Inl BroadcastError)"

definition broadcast_shapes :: "shape \<Rightarrow> shape \<Rightarrow> error + shape" where
  "broadcast_shapes s t =
     (case s of (b1, c1, h1, w1) \<Rightarrow> (case t of (b2, c2, h2, w2) \<Rightarrow>
        ebind (broadcast_dim b1 b2) (\<lambda>b.
        ebind (broadcast_dim c1 c2) (\<lambda>c.
        ebind (broadcast_dim h1 h2) (\<lambda>h.
        ebind (broadcast_dim w1 w2) (\<lambda>w. Inr (b, c, h, w)))))))"

text \<open>
  An in-place \<open>out += t\<close>: the broadcast of the two shapes must be the shape of \<open>out\<close>.
\<close>

definition inplace_add :: "shape \<Rightarrow> shape \<Rightarrow> error + shape" where
  "inplace_add out t =
     ebind (broadcast_shapes out t) (\<lambda>r. if r = out then Inr out else Inl BroadcastError)"

text \<open>A sequence of fallible constructor calls: the first exception ends it.\<close>

fun collect :: "(error + 'a) list \<Rightarrow> error + 'a list" where
  "collect [] = Inr []"
| "collect (m # ms) = ebind m (\<lambda>v. ebind (collect ms) (\<lambda>vs. Inr (v # vs)))"

text \<open>
  The constructor \<open>nn.Conv2d(in_channels, out_channels, ..., groups)\<close> raises
  \<open>ValueError\<close> unless \<open>groups\<close> is positive and divides both channel counts.
\<close>

definition Conv2d_init :: "nat \<Rightarrow> nat \<Rightarrow> nat \<Rightarrow> error + unit" where
  "Conv2d_init in_channels out_channels groups =
     (if groups = 0 then Inl ValueError
      else if in_channels mod groups \<noteq> 0 then Inl ValueError
      else if out_channels mod groups \<noteq> 0 then Inl ValueError
      else Inr ())"

text \<open>
  A constructed \<open>nn.Conv2d(in_channels, out_channels, kernel_size, stride, padding)\<close>
  applied to a 4-D input; \<open>groups\<close> has no effect on the shape.
\<close>

definition conv2d ::
  "nat \<Rightarrow> nat \<Rightarrow> nat \<times> nat \<Rightarrow> nat \<times> nat \<Rightarrow> nat \<times> nat \<Rightarrow> shape \<Rightarrow> error + shape" where
  "conv2d in_channels out_channels ksize stride padding s =
     (case s of (b, c, h, w) \<Rightarrow>
        (case ksize of (kh, kw) \<Rightarrow> (case stride of (sh, sw) \<Rightarrow> (case padding of (ph, pw) \<Rightarrow>
           if c \<noteq> in_channels then Inl ChannelMismatch
           else if h + 2 * ph < kh \<or> w + 2 * pw < kw then Inl KernelSizeError
           else Inr (b, out_channels, (h + 2 * ph - kh) div sh + 1,
                                      (w + 2 * pw - kw) div sw + 1)))))"

text \<open>\<open>nn.Sequential\<close>: the layers in order, stopping at the first exception.\<close>

fun sequential :: "('a \<Rightarrow> error + 'a) list \<Rightarrow> 'a \<Rightarrow> error + 'a" where
  "sequential [] x = Inr x"
| "sequential (f # fs) x = ebind (f x) (sequential fs)"

text \<open>Activations (\<open>nn.GELU\<close>) keep the shape.\<close>

definition gelu :: "shape \<Rightarrow> error + shape" where
  "gelu s = Inr s"

text \<open>
  \<open>a, b = torch.chunk(x, 2, dim=1)\<close>: chunks of \<open>ceil(c / 2)\<close> channels; with fewer than
  two channels there are fewer than two chunks and the unpacking raises.
\<close>

definition chunk2 :: "shape \<Rightarrow> error + shape \<times> shape" where
  "chunk2 s =
     (case s of (b, c, h, w) \<Rightarrow>
        if c < 2 then Inl UnpackError
        else Inr ((b, (c + 1) div 2, h, w), (b, c - (c + 1) div 2, h, w)))"

text \<open>
  \<open>channel_shuffle(x, groups=2)\<close>: views the channels as \<open>(2, channels // 2)\<close>,
  transposes and flattens again; the first view needs an even channel count.
\<close>

definition channel_shuffle :: "shape \<Rightarrow> error + shape" where
  "channel_shuffle s =
     (case s of (b, c, h, w) \<Rightarrow> if c mod 2 = 0 then Inr (b, c, h, w) else Inl ViewError)"

text \<open>
  \<open>LayerNorm\<close> with \<open>data_format="channels_first"\<close>: mean and variance over the channel
  axis keep the shape, and \<open>weight[:, None, None]\<close> and \<open>bias[:, None, None]\<close> of
  \<open>normalized_shape\<close> channels are broadcast against the input.
\<close>

definition LayerNorm :: "nat \<Rightarrow> shape \<Rightarrow> error + shape" where
  "LayerNorm normalized_shape s =
     ebind (broadcast_shapes (1, normalized_shape, 1, 1) s)
       (\<lambda>r. broadcast_shapes r (1, normalized_shape, 1, 1))"

text \<open>\<open>nn.PixelShuffle(r)\<close>\<close>

definition pixel_shuffle :: "nat \<Rightarrow> shape \<Rightarrow> error + shape" where
  "pixel_shuffle r s =
     (case s of (b, c, h, w) \<Rightarrow>
        if r = 0 \<or> c mod (r * r) \<noteq> 0 then Inl PixelShuffleError
        else Inr (b, c div (r * r), h * r, w * r))"

text \<open>\<open>F.interpolate(x, size=(h, w), mode="bilinear")\<close>: sizes must be positive.\<close>

definition interpolate :: "nat \<times> nat \<Rightarrow> shape \<Rightarrow> error + shape" where
  "interpolate sz s =
     (case s of (b, c, h0, w0) \<Rightarrow> (case sz of (h, w) \<Rightarrow>
        if h0 = 0 \<or> w0 = 0 \<or> h = 0 \<or> w = 0 then Inl ValueError else Inr (b, c, h, w)))"

section \<open>The modules of the network\<close>

text \<open>
  Each module instance is a record of what its constructor stores; a constructor that
  can raise returns \<open>error + _\<close>. The flag \<open>self.training\<close>, which \<open>nn.Module\<close> keeps
  on every submodule and sets for the whole model at once, is passed to \<open>forward\<close> as an
  argument.
\<close>

record expert =
  ex_in_ch :: nat
  low_dim :: nat

definition Expert_init :: "nat \<Rightarrow> nat \<Rightarrow> expert" where
  "Expert_init in_ch ld = \<lparr> ex_in_ch = in_ch, low_dim = ld \<rparr>"

text \<open>\<open>Expert.forward(x, k)\<close>\<close>

definition Expert_forward :: "expert \<Rightarrow> shape \<Rightarrow> shape \<Rightarrow> error + shape" where
  "Expert_forward e x k =
     ebind (conv2d (ex_in_ch e) (low_dim e) (1, 1) (1, 1) (0, 0) x) (\<lambda>x1.
     ebind (conv2d (ex_in_ch e) (low_dim e) (1, 1) (1, 1) (0, 0) k) (\<lambda>k1.
     ebind (broadcast_shapes k1 x1) (\<lambda>x2.
       conv2d (low_dim e) (ex_in_ch e) (1, 1) (1, 1) (0, 0) x2)))"

record router =
  rt_in_ch :: nat
  rt_num_experts :: nat

text \<open>
  \<open>Router(in_ch, num_experts)\<close> builds \<open>nn.Linear(in_ch, num_experts)\<close>, which raises on
  a negative number of output features.
\<close>

definition Router_init :: "nat \<Rightarrow> int \<Rightarrow> error + router" where
  "Router_init in_ch n =
     (if n < 0 then Inl NegativeDimensionError
      else Inr \<lparr> rt_in_ch = in_ch, rt_num_experts = nat n \<rparr>)"

text \<open>
  \<open>Router.forward\<close>: adaptive average pooling to 1x1, squeezing the two spatial axes,
  and the linear layer; the result has shape (batch, num_experts).
\<close>

definition Router_forward :: "router \<Rightarrow> shape \<Rightarrow> error + nat \<times> nat" where
  "Router_forward g s =
     (case s of (b, c, h, w) \<Rightarrow>
        if h = 0 \<or> w = 0 then Inl ValueError
        else if c \<noteq> rt_in_ch g then Inl ChannelMismatch
        else Inr (b, rt_num_experts g))"

record moe_layer =
  experts :: "expert list"
  gate :: router
  num_expert :: int

text \<open>\<open>MoELayer.__init__\<close>: the only check is that the list of experts is not empty.\<close>

definition MoELayer_init :: "expert list \<Rightarrow> router \<Rightarrow> int \<Rightarrow> error + moe_layer" where
  "MoELayer_init es g ne =
     (if length es > 0 then Inr \<lparr> experts = es, gate = g, num_expert = ne \<rparr>
      else Inl AssertionError)"

text \<open>
  One iteration of either loop of \<open>MoELayer.forward\<close>:
  \<open>out += expert(inputs, k) * w[:, i : i + 1, None, None]\<close>, where \<open>w\<close> has \<open>cols\<close>
  columns, so that the slice has one column when \<open>i < cols\<close> and none otherwise.
\<close>

definition weight_slice :: "nat \<Rightarrow> nat \<Rightarrow> nat \<Rightarrow> shape" where
  "weight_slice b cols i = (b, (if i < cols then 1 else 0), 1, 1)"

definition expert_step ::
  "shape \<Rightarrow> shape \<Rightarrow> nat \<Rightarrow> nat \<Rightarrow> expert \<Rightarrow> shape \<Rightarrow> error + shape" where
  "expert_step inputs k cols i e out =
     (case inputs of (b, c, h, w) \<Rightarrow>
        ebind (Expert_forward e inputs k) (\<lambda>eo.
        ebind (broadcast_shapes eo (weight_slice b cols i)) (\<lambda>p.
          inplace_add out p)))"

fun expert_loop ::
  "shape \<Rightarrow> shape \<Rightarrow> nat \<Rightarrow> nat \<Rightarrow> expert list \<Rightarrow> shape \<Rightarrow> error + shape" where
  "expert_loop inputs k cols i [] out = Inr out"
| "expert_loop inputs k cols i (e # es) out =
     ebind (expert_step inputs k cols i e out) (expert_loop inputs k cols (Suc i) es)"

text \<open>
  \<open>[self.experts[i] for i in topk_experts.squeeze(dim=0)]\<close> for \<open>topk_experts\<close> of shape
  (b, kk). With \<open>b = 1\<close> the squeeze leaves \<open>kk\<close> scalars, each a valid index. Otherwise
  the iteration is over the \<open>b\<close> rows, and a row is an index only if it has exactly one
  element. Which experts are selected depends on the data; all experts of a layer have
  the same input and output channels, and the first ones stand for the selected ones.
\<close>

definition selected_experts :: "expert list \<Rightarrow> nat \<Rightarrow> nat \<Rightarrow> error + expert list" where
  "selected_experts es b kk =
     (if b = 1 then Inr (take kk es)
      else if b = 0 then Inr []
      else if kk = 1 then Inr (replicate b (hd es))
      else Inl IndexTypeError)"

text \<open>\<open>MoELayer.forward(inputs, k)\<close>\<close>

definition MoELayer_forward :: "bool \<Rightarrow> moe_layer \<Rightarrow> shape \<Rightarrow> shape \<Rightarrow> error + shape" where
  "MoELayer_forward training ml inputs k =
     ebind (Router_forward (gate ml) inputs) (\<lambda>weights.
       (case weights of (b, n) \<Rightarrow>
          if num_expert ml < 0 \<or> int n < num_expert ml then Inl TopkRangeError
          else if training
          then expert_loop inputs k n 0 (experts ml) inputs
          else ebind (selected_experts (experts ml) b (nat (num_expert ml))) (\<lambda>sel.
                 expert_loop inputs k (nat (num_expert ml)) 0 sel inputs)))"

text \<open>\<open>StripedConv2d(in_ch, kernel_size)\<close>: a 1 x K then a K x 1 convolution.\<close>

definition StripedConv2d :: "nat \<Rightarrow> nat \<Rightarrow> shape \<Rightarrow> error + shape" where
  "StripedConv2d in_ch ks =
     sequential
       [conv2d in_ch in_ch (1, ks) (1, 1) (0, ks div 2),
        conv2d in_ch in_ch (ks, 1) (1, 1) (ks div 2, 0)]"

text \<open>\<open>GatedFFN(in_ch, mlp_ratio, kernel_size, act_layer).forward\<close>\<close>

definition GatedFFN :: "nat \<Rightarrow> nat \<Rightarrow> nat \<Rightarrow> shape \<Rightarrow> error + shape" where
  "GatedFFN in_ch mlp_ratio ks x =
     (let mlp_ch = in_ch * mlp_ratio in
      ebind (sequential [conv2d in_ch mlp_ch (1, 1) (1, 1) (0, 0), gelu] x) (\<lambda>x1.
      ebind (chunk2 x1) (\<lambda>(x2, g).
      ebind (conv2d (mlp_ch div 2) (mlp_ch div 2) (ks, ks) (1, 1) (ks div 2, ks div 2) g) (\<lambda>g1.
      ebind (broadcast_shapes x2 g1) (\<lambda>x3.
        sequential [conv2d in_ch in_ch (1, 1) (1, 1) (0, 0), gelu] x3)))))"

record moe_block =
  mb_in_ch :: nat
  use_shuffle :: bool
  recursive :: int
  moe_layer :: moe_layer

text \<open>The three bottleneck-growth policies of \<open>MoEBlock.__init__\<close>.\<close>

definition grow_func :: "string \<Rightarrow> error + (nat \<Rightarrow> nat)" where
  "grow_func lr_space =
     (if lr_space = ''linear'' then Inr (\<lambda>i. i + 2)
      else if lr_space = ''exp'' then Inr (\<lambda>i. 2 ^ (i + 1))
      else if lr_space = ''double'' then Inr (\<lambda>i. 2 * i + 2)
      else Inl NotImplementedError)"

text \<open>
  The constructor of \<open>StripedConv2d(in_ch, kernel_size, depthwise)\<close> builds two
  convolutions, with \<open>groups = in_ch\<close> when depthwise.
\<close>

definition StripedConv2d_init :: "nat \<Rightarrow> bool \<Rightarrow> error + unit" where
  "StripedConv2d_init in_ch depthwise =
     ebind (collect [Conv2d_init in_ch in_ch (if depthwise then in_ch else 1),
                     Conv2d_init in_ch in_ch (if depthwise then in_ch else 1)]) (\<lambda>_. Inr ())"

text \<open>
  \<open>MoEBlock.__init__\<close>, in the order of its statements: the convolutions of \<open>conv_1\<close>,
  \<open>agg_conv\<close>, \<open>conv\<close> and \<open>conv_2\<close> are constructed (the depthwise ones with
  \<open>groups = in_ch\<close>); the growth policy is checked; the experts, the router and the
  layer are built; last comes the convolution \<open>proj\<close>. \<open>topk\<close> is handed to
  \<open>MoELayer\<close> as \<open>num_expert\<close> unchecked. The three convolutions of an \<open>Expert\<close> have
  \<open>groups = 1\<close> and their constructors do not raise.
\<close>

definition MoEBlock_init ::
  "nat \<Rightarrow> int \<Rightarrow> int \<Rightarrow> bool \<Rightarrow> string \<Rightarrow> int \<Rightarrow> error + moe_block" where
  "MoEBlock_init in_ch num_experts topk shuffle lr_space rec =
     ebind (collect [Conv2d_init in_ch in_ch 1, Conv2d_init in_ch (2 * in_ch) 1,
                     Conv2d_init in_ch in_ch in_ch,
                     Conv2d_init in_ch in_ch in_ch, Conv2d_init in_ch in_ch 1,
                     StripedConv2d_init in_ch True]) (\<lambda>_.
     ebind (grow_func lr_space) (\<lambda>grow.
     ebind (Router_init in_ch num_experts) (\<lambda>g.
     ebind (MoELayer_init
              (map (\<lambda>i. Expert_init in_ch (grow (nat i))) (py_range num_experts)) g topk) (\<lambda>ml.
     ebind (Conv2d_init in_ch in_ch 1) (\<lambda>_.
       Inr \<lparr> mb_in_ch = in_ch, use_shuffle = shuffle, recursive = rec, moe_layer = ml \<rparr>)))))"

text \<open>
  \<open>MoEBlock.calibrate\<close>: \<open>recursive\<close> times a 4 x 4 convolution of stride 4, a 3 x 3
  and a 1 x 1 convolution, interpolation back to the input size, and the residual.
\<close>

definition calibrate :: "moe_block \<Rightarrow> shape \<Rightarrow> error + shape" where
  "calibrate mb x =
     (case x of (b, c, h, w) \<Rightarrow>
        ebind (sequential
                 (concat (map (\<lambda>_. [conv2d (mb_in_ch mb) (mb_in_ch mb) (4, 4) (4, 4) (0, 0), gelu])
                            (py_range (recursive mb)))) x) (\<lambda>x1.
        ebind (sequential
                 [conv2d (mb_in_ch mb) (mb_in_ch mb) (3, 3) (1, 1) (1, 1),
                  conv2d (mb_in_ch mb) (mb_in_ch mb) (1, 1) (1, 1) (0, 0)] x1) (\<lambda>x2.
        ebind (interpolate (h, w) x2) (\<lambda>x3.
          broadcast_shapes x x3))))"

text \<open>\<open>MoEBlock.forward\<close>\<close>

definition MoEBlock_forward :: "bool \<Rightarrow> moe_block \<Rightarrow> shape \<Rightarrow> error + shape" where
  "MoEBlock_forward training mb x =
     ebind (sequential
              [conv2d (mb_in_ch mb) (mb_in_ch mb) (3, 3) (1, 1) (1, 1), gelu,
               conv2d (mb_in_ch mb) (2 * mb_in_ch mb) (1, 1) (1, 1) (0, 0)] x) (\<lambda>x1.
     ebind (if use_shuffle mb then channel_shuffle x1 else Inr x1) (\<lambda>x2.
     ebind (chunk2 x2) (\<lambda>(x3, k).
     ebind (sequential [StripedConv2d (mb_in_ch mb) 3, gelu] x3) (\<lambda>x4.
     ebind (calibrate mb k) (\<lambda>k1.
     ebind (MoELayer_forward training (moe_layer mb) x4 k1) (\<lambda>x5.
       conv2d (mb_in_ch mb) (mb_in_ch mb) (1, 1) (1, 1) (0, 0) x5))))))"

record rme =
  rme_in_ch :: nat
  block :: moe_block



text \<open>\<open>RME.forward\<close>: two pre-normalised sub-blocks, each with a residual addition.\<close>

definition RME_forward :: "bool \<Rightarrow> rme \<Rightarrow> shape \<Rightarrow> error + shape" where
  "RME_forward training r x =
     ebind (ebind (LayerNorm (rme_in_ch r) x) (MoEBlock_forward training (block r))) (\<lambda>y.
     ebind (broadcast_shapes y x) (\<lambda>x1.
     ebind (ebind (LayerNorm (rme_in_ch r) x1) (GatedFFN (rme_in_ch r) 2 3)) (\<lambda>y1.
       broadcast_shapes y1 x1)))"

record sme =
  sme_in_ch :: nat
  sme_kernel_size :: nat


text \<open>\<open>StripedConvFormer.forward\<close>\<close>

definition StripedConvFormer :: "nat \<Rightarrow> nat \<Rightarrow> shape \<Rightarrow> error + shape" where
  "StripedConvFormer in_ch ks x =
     ebind (sequential [conv2d in_ch (in_ch * 2) (1, 1) (1, 1) (0, 0), gelu] x) (\<lambda>qv.
     ebind (chunk2 qv) (\<lambda>(q, v).
     ebind (StripedConv2d in_ch ks q) (\<lambda>q1.
     ebind (broadcast_shapes q1 v) (\<lambda>p.
       conv2d in_ch in_ch (1, 1) (1, 1) (0, 0) p))))"

text \<open>\<open>SME.forward\<close>\<close>

definition SME_forward :: "sme \<Rightarrow> shape \<Rightarrow> error + shape" where
  "SME_forward g x =
     ebind (ebind (LayerNorm (sme_in_ch g) x)
              (StripedConvFormer (sme_in_ch g) (sme_kernel_size g))) (\<lambda>y.
     ebind (broadcast_shapes y x) (\<lambda>x1.
     ebind (ebind (LayerNorm (sme_in_ch g) x1) (GatedFFN (sme_in_ch g) 2 3)) (\<lambda>y1.
       broadcast_shapes y1 x1)))"

record res_group =
  local_block :: rme
  global_block :: sme


definition ResGroup_forward :: "bool \<Rightarrow> res_group \<Rightarrow> shape \<Rightarrow> error + shape" where
  "ResGroup_forward training g x =
     ebind (RME_forward training (local_block g) x) (SME_forward (global_block g))"

section \<open>The network\<close>

text \<open>
  The keyword arguments of \<open>SeemoRe.__init__\<close>. \<open>img_range\<close> only scales values and
  is left out.
\<close>

record seemore_cfg =
  cfg_scale :: nat
  cfg_in_chans :: nat
  cfg_num_experts :: int
  cfg_num_layers :: int
  cfg_embedding_dim :: nat
  cfg_use_shuffle :: bool
  cfg_global_kernel_size :: nat
  cfg_recursive :: int
  cfg_lr_space :: string
  cfg_topk :: int

text \<open>
  The type of a torch tensor: its floating-point element type and the device that holds
  it. The cached tensor \<open>self.mean\<close> is its three values and its type.
\<close>

datatype dtype = Float16 | BFloat16 | Float32 | Float64

datatype device = CPU | CUDA

type_synonym tensor_type = "dtype \<times> device"

record mean_tensor =
  mean_values :: "real list"
  mean_type :: tensor_type

text \<open>
  \<open>t.type_as(x)\<close> for an \<open>x\<close> of type \<open>xt\<close>: \<open>t\<close> itself when it has that type already,
  and otherwise a new tensor of that type, whose values are those of \<open>t\<close> converted to
  the element type of \<open>x\<close>. The conversion of a value to an element type, \<open>cast\<close>, rounds
  it to the nearest value of that type; it is a parameter of the model.
\<close>

definition type_as :: "(dtype \<Rightarrow> real \<Rightarrow> real) \<Rightarrow> mean_tensor \<Rightarrow> tensor_type \<Rightarrow> mean_tensor" where
  "type_as cast t xt =
     (if mean_type t = xt then t
      else \<lparr> mean_values = (if fst (mean_type t) = fst xt then mean_values t
                             else map (cast (fst xt)) (mean_values t)),
             mean_type = xt \<rparr>)"

text \<open>
  The model instance. \<open>state_dict\<close> holds the parameters and buffers of all submodules,
  that is what \<open>state_dict()\<close> returns; their type \<open>'p\<close> is left open. \<open>self.mean\<close> is a
  plain attribute and not among them.
\<close>

record 'p seemore =
  scale :: nat
  num_in_channels :: nat
  num_out_channels :: nat
  mean :: mean_tensor
  embedding_dim :: nat
  body :: "res_group list"
  training :: bool
  state_dict :: 'p

definition rgb_mean :: "real list" where
  "rgb_mean = [0.4488, 0.4371, 0.4040]"



definition mean_shape :: shape where
  "mean_shape = (1, 3, 1, 1)"

text \<open>
  The shape computed by \<open>SeemoRe.forward\<close>, from the subtraction of the mean to the
  final addition of the mean.
\<close>

definition forward_shape :: "'p seemore \<Rightarrow> shape \<Rightarrow> error + shape" where
  "forward_shape m x =
     ebind (broadcast_shapes x mean_shape) (\<lambda>x0.
     ebind (conv2d (num_in_channels m) (embedding_dim m) (3, 3) (1, 1) (1, 1) x0) (\<lambda>res.
     ebind (sequential (map (ResGroup_forward (training m)) (body m)) res) (\<lambda>x1.
     ebind (LayerNorm (embedding_dim m) x1) (\<lambda>x2.
     ebind (conv2d (embedding_dim m) (embedding_dim m) (3, 3) (1, 1) (1, 1) x2) (\<lambda>x3.
     ebind (broadcast_shapes x3 res) (\<lambda>x4.
     ebind (sequential
              [conv2d (embedding_dim m) (scale m ^ 2 * num_out_channels m) (3, 3) (1, 1) (1, 1),
               pixel_shuffle (scale m)] x4) (\<lambda>x5.
       broadcast_shapes x5 mean_shape)))))))"

text \<open>
  \<open>SeemoRe.forward\<close> on an input of a given type and shape. The first statement,
  \<open>self.mean = self.mean.type_as(x)\<close>, rebinds the attribute before anything can
  raise; it is the only assignment to an attribute of the model or of one of its
  submodules in \<open>forward\<close> and the methods it calls, and the in-place operations of
  \<open>MoELayer.forward\<close> act on tensors created in the call (\<open>inputs.clone()\<close>,
  \<open>torch.zeros_like(weights)\<close>). The result is the model after the call and the shape
  of the output, for an input of the element type and device of the parameters.
\<close>

definition SeemoRe_forward ::
  "(dtype \<Rightarrow> real \<Rightarrow> real) \<Rightarrow> 'p seemore \<Rightarrow> tensor_type \<Rightarrow> shape \<Rightarrow> 'p seemore \<times> (error + shape)" where
  "SeemoRe_forward cast m xt x =
     (let m' = m\<lparr> mean := type_as cast (mean m) xt \<rparr> in (m', forward_shape m' x))"

text \<open>
  The network on tensors whose elements carry no information (the one-element type
  \<open>num1\<close>): such a tensor is its shape, so this is the network as far as shapes and
  exceptions go.
\<close>

definition SeemoRe_model :: "'p seemore \<Rightarrow> num1 tensor \<Rightarrow> error + num1 tensor" where
  "SeemoRe_model m t = ebind (forward_shape m (shape t)) (\<lambda>s. Inr (new_zeros s))"

text \<open>The configuration table \<open>seemore_model_cfgs\<close>.\<close>

definition seemore_t_base_cfg :: "nat \<Rightarrow> seemore_cfg" where
  "seemore_t_base_cfg sc =
     \<lparr> cfg_scale = sc, cfg_in_chans = 3, cfg_num_experts = 3, cfg_num_layers = 6,
       cfg_embedding_dim = 36, cfg_use_shuffle = True, cfg_global_kernel_size = 11,
       cfg_recursive = 2, cfg_lr_space = ''exp'', cfg_topk = 1 \<rparr>"

definition seemore_b_base_cfg :: "nat \<Rightarrow> seemore_cfg" where
  "seemore_b_base_cfg sc =
     \<lparr> cfg_scale = sc, cfg_in_chans = 3, cfg_num_experts = 3, cfg_num_layers = 8,
       cfg_embedding_dim = 48, cfg_use_shuffle = True, cfg_global_kernel_size = 11,
       cfg_recursive = 2, cfg_lr_space = ''exp'', cfg_topk = 1 \<rparr>"

definition seemore_model_cfgs :: "string \<rightharpoonup> seemore_cfg" where
  "seemore_model_cfgs =
     map_of
       [(''seemore_b_x2'', seemore_b_base_cfg 2), (''seemore_b_x3'', seemore_b_base_cfg 3),
        (''seemore_b_x4'', seemore_b_base_cfg 4), (''seemore_t_x2'', seemore_t_base_cfg 2),
        (''seemore_t_x3'', seemore_t_base_cfg 3), (''seemore_t_x4'', seemore_t_base_cfg 4)]"

section \<open>The values computed by the mixture-of-experts layer\<close>

text \<open>
  \<open>MoELayer.forward\<close> on values, in exact real arithmetic. A batch is the list of
  its items, each the pair of the feature map \<open>inputs[n]\<close> and the calibration map
  \<open>k[n]\<close>; a feature map is a vector of a real vector space (addition and the product
  with a scalar weight are elementwise). The router and the experts act on each batch
  item by itself, with fixed weights: \<open>gate_fn x i\<close> is the router's score of expert
  \<open>i\<close> on item \<open>x\<close>, for \<open>i\<close> below \<open>gate_out\<close>, the number of output features of its linear
  layer, and \<open>expert_fns ! i\<close> is \<open>Expert.forward\<close> of expert \<open>i\<close>.
\<close>

record 'x moe_values =
  expert_fns :: "('x \<Rightarrow> 'x \<Rightarrow> 'x) list"
  gate_fn :: "'x \<Rightarrow> nat \<Rightarrow> real"
  gate_out :: nat
  top_k :: int

text \<open>\<open>F.softmax(out, dim=1)\<close> on one row of \<open>n\<close> scores.\<close>

definition softmax :: "nat \<Rightarrow> (nat \<Rightarrow> real) \<Rightarrow> real list" where
  "softmax n f = map (\<lambda>i. exp (f i) / sum_list (map (\<lambda>j. exp (f j)) [0..<n])) [0..<n]"

text \<open>
  \<open>torch.topk(weights, k)\<close> on one row: the indices of the \<open>k\<close> largest entries in
  descending order of the entries, the lower index first among equal entries, and the
  entries at these indices.
\<close>

definition topk_indices :: "nat \<Rightarrow> real list \<Rightarrow> nat list" where
  "topk_indices k ws = take k (sort_key (\<lambda>i. - (ws ! i)) [0..<length ws])"

definition topk_values :: "nat \<Rightarrow> real list \<Rightarrow> real list" where
  "topk_values k ws = map (\<lambda>i. ws ! i) (topk_indices k ws)"

text \<open>
  One row of \<open>exp_weights\<close>: zeros, with \<open>scatter_\<close> writing at each selected index
  the weight gathered at that index.
\<close>

definition scatter_row :: "real list \<Rightarrow> nat list \<Rightarrow> real list" where
  "scatter_row ws idx = fold (\<lambda>j ew. ew[j := ws ! j]) idx (replicate (length ws) 0)"

text \<open>
  \<open>w[:, i : i + 1, None, None]\<close> for \<open>w\<close> with \<open>cols\<close> columns: the weight of each batch
  item. Beyond the last column the slice is empty, and its product with the output of
  an expert, or the addition of that product to \<open>out\<close>, fails to broadcast.
\<close>

definition weight_column :: "nat \<Rightarrow> nat \<Rightarrow> real list list \<Rightarrow> error + real list" where
  "weight_column cols i rows =
     (if i < cols then Inr (map (\<lambda>r. r ! i) rows) else Inl BroadcastError)"

text \<open>\<open>out += expert(inputs, k) * w\<close> with one weight per batch item.\<close>

definition accumulate ::
  "('x::real_vector) list \<Rightarrow> ('x \<Rightarrow> 'x \<Rightarrow> 'x) \<Rightarrow> ('x \<times> 'x) list \<Rightarrow> real list \<Rightarrow> 'x list" where
  "accumulate out e batch w =
     map (\<lambda>(outn, (x, k), wn). outn + wn *\<^sub>R e x k) (zip out (zip batch w))"

fun value_loop ::
  "('x \<times> 'x) list \<Rightarrow> nat \<Rightarrow> real list list \<Rightarrow> nat \<Rightarrow> ('x \<Rightarrow> 'x \<Rightarrow> 'x) list \<Rightarrow>
   ('x::real_vector) list \<Rightarrow> error + 'x list" where
  "value_loop batch cols rows i [] out = Inr out"
| "value_loop batch cols rows i (e # es) out =
     ebind (weight_column cols i rows) (\<lambda>w.
       value_loop batch cols rows (Suc i) es (accumulate out e batch w))"

text \<open>
  The iteration over \<open>topk_experts.squeeze(dim=0)\<close>: for a batch of one, the selected
  indices of that item; otherwise one row per batch item, which is an index only when it
  has a single element.
\<close>

definition selected_indices :: "nat list list \<Rightarrow> nat \<Rightarrow> error + nat list" where
  "selected_indices te kk =
     (if length te = 1 then Inr (hd te)
      else if te = [] then Inr []
      else if kk = 1 then Inr (map hd te)
      else Inl IndexTypeError)"

definition lookup :: "'a list \<Rightarrow> nat \<Rightarrow> error + 'a" where
  "lookup xs i = (if i < length xs then Inr (xs ! i) else Inl IndexError)"

definition MoELayer_values ::
  "bool \<Rightarrow> ('x::real_vector) moe_values \<Rightarrow> ('x \<times> 'x) list \<Rightarrow> error + 'x list" where
  "MoELayer_values tr mv batch =
     (let weights = map (\<lambda>(x, k). softmax (gate_out mv) (gate_fn mv x)) batch in
      if top_k mv < 0 \<or> int (gate_out mv) < top_k mv then Inl TopkRangeError
      else
        let kk = nat (top_k mv);
            topk_weights = map (topk_values kk) weights;
            topk_experts = map (topk_indices kk) weights;
            out = map fst batch
        in if tr
           then value_loop batch (gate_out mv)
                  (map (\<lambda>ws. scatter_row ws (topk_indices kk ws)) weights) 0 (expert_fns mv) out
           else ebind (selected_indices topk_experts kk) (\<lambda>sel.
                ebind (collect (map (lookup (expert_fns mv)) sel)) (\<lambda>selected.
                  value_loop batch kk topk_weights 0 selected out)))"

section \<open>Notions used in the statements\<close>





text \<open>
  The float quotient and the conversion of values without rounding, for operands and
  values that need none.
\<close>

definition exact_quotient :: "int \<Rightarrow> int \<Rightarrow> error + real" where
  "exact_quotient a d = Inr (real_of_int a / real_of_int d)"





text \<open>
  The model that \<open>SeemoRe(**seemore_model_cfgs["seemore_t_x2"])\<close> constructs, written
  out: six equal layers of width 36 with three experts each. Its parameters are left
  out (they are of the unit type), and its mean holds the values of \<open>rgb_mean\<close>.
\<close>

definition seemore_t_layer :: res_group where
  "seemore_t_layer =
     \<lparr> local_block =
         \<lparr> rme_in_ch = 36,
           block = \<lparr> mb_in_ch = 36, use_shuffle = True, recursive = 2,
                     moe_layer = \<lparr> experts = [\<lparr> ex_in_ch = 36, low_dim = 2 \<rparr>,
                                              \<lparr> ex_in_ch = 36, low_dim = 4 \<rparr>,
                                              \<lparr> ex_in_ch = 36, low_dim = 8 \<rparr>],
                                   gate = \<lparr> rt_in_ch = 36, rt_num_experts = 3 \<rparr>,
                                   num_expert = 1 \<rparr> \<rparr> \<rparr>,
       global_block = \<lparr> sme_in_ch = 36, sme_kernel_size = 11 \<rparr> \<rparr>"

definition seemore_t_x2 :: "unit seemore" where
  "seemore_t_x2 =
     \<lparr> scale = 2, num_in_channels = 3, num_out_channels = 3,
       mean = \<lparr> mean_values = rgb_mean, mean_type = (Float32, CPU) \<rparr>,
       embedding_dim = 36, body = replicate 6 seemore_t_layer, training = True,
       state_dict = () \<rparr>"

section \<open>Arithmetic of the tile grid\<close>








section \<open>The geometry of the tiles\<close>











section \<open>Evaluating the network on shapes\<close>


lemma fs16: "forward_shape seemore_t_x2 (1, 3, 16, 16) = Inr (1, 3, 32, 32)"
  by code_simp


lemma fs16_Suc: "forward_shape seemore_t_x2 (Suc 0, 3, 16, 16) = Inr (Suc 0, 3, 32, 32)"
  using fs16 by simp


lemma model16: "SeemoRe_model seemore_t_x2 (new_zeros (1, 3, 16, 16)) = Inr (new_zeros (1, 3, 32, 32))"
  by (simp add: SeemoRe_model_def new_zeros_def fs16_Suc ebind_def)

section \<open>Tile sizes that are not positive\<close>

text \<open>
  Claim C3 as stated fails: with tile size \<open>-1\<close> the tile counts are negative, the loops
  do not run, and \<open>tile_inference\<close> returns the zero-initialised output without an error.
\<close>

theorem negative_tile_size_counterexample:
  "tile_inference exact_quotient (SeemoRe_model seemore_t_x2) 2 (new_zeros (1, 3, 16, 16)) (- 1) =
     Inr (new_zeros (1, 3, 32, 32))"
  by (simp add: tile_inference_def tile_inference_run_def new_zeros_def ceil_div_def tile_grid_def
      py_range_def)

text \<open>
  Claim C3, as amended. For a tile size \<open>\<le> 0\<close>, \<open>__call__\<close> does not use the tiled
  scheduler and returns the result of whole-image inference; \<open>tile_inference\<close> called
  with tile size 0 raises \<open>ZeroDivisionError\<close>.
\<close>

theorem nonpositive_tile_size:
  "tile_size \<le> 0 \<Longrightarrow>
     call_inference fq model sc y tile_size = model y \<and>
     tile_inference fq model sc y 0 = Inl ZeroDivisionError"
  by (simp add: call_inference_def tile_inference_def tile_inference_run_def ceil_div_def
      split: prod.splits)

theorem nonpositive_tile_size_witness:
  "(0::int) \<le> 0 \<and>
   call_inference exact_quotient (SeemoRe_model seemore_t_x2) 2 (new_zeros (1, 3, 16, 16)) 0 =
     Inr (new_zeros (1, 3, 32, 32)) \<and>
   tile_inference exact_quotient (SeemoRe_model seemore_t_x2) 2 (new_zeros (1, 3, 16, 16)) 0 =
     Inl ZeroDivisionError"
  using nonpositive_tile_size[of 0 exact_quotient "SeemoRe_model seemore_t_x2" 2
      "new_zeros (1, 3, 16, 16)"] model16
  by simp

section \<open>The mean, the model state and construction\<close>

lemma mean_broadcast:
  "c \<noteq> 3 \<Longrightarrow> c \<noteq> 1 \<Longrightarrow> broadcast_shapes (b, c, h, w) mean_shape = Inl BroadcastError"
  by (simp add: broadcast_shapes_def broadcast_dim_def mean_shape_def ebind_def)

text \<open>
  Claim C10. The mean has the fixed shape (1, 3, 1, 1). For a model whose input
  channel count is neither 3 nor 1, \<open>forward\<close> on any input with that channel count
  fails at its first step, the subtraction of the mean, with a broadcasting error, for
  every batch size, height and width.
\<close>

theorem mean_broadcast_fails:
  "num_in_channels m \<noteq> 3 \<Longrightarrow> num_in_channels m \<noteq> 1 \<Longrightarrow>
     broadcast_shapes (b, num_in_channels m, h, w) mean_shape = Inl BroadcastError \<and>
     forward_shape m (b, num_in_channels m, h, w) = Inl BroadcastError \<and>
     snd (SeemoRe_forward cast m xt (b, num_in_channels m, h, w)) = Inl BroadcastError"
  by (simp add: mean_broadcast forward_shape_def SeemoRe_forward_def Let_def ebind_def)

theorem mean_broadcast_fails_witness:
  "num_in_channels (seemore_t_x2\<lparr>num_in_channels := 5\<rparr>) \<noteq> 3 \<and>
   num_in_channels (seemore_t_x2\<lparr>num_in_channels := 5\<rparr>) \<noteq> 1 \<and>
   forward_shape (seemore_t_x2\<lparr>num_in_channels := 5\<rparr>) (1, 5, 16, 16) = Inl BroadcastError"
  using mean_broadcast_fails[of "seemore_t_x2\<lparr>num_in_channels := 5\<rparr>" 1 16 16]
  by simp

text \<open>
  Inputs of any other channel count fail as well, at the subtraction or at the first
  convolution: a model with a channel count other than 3 never performs inference.
\<close>

lemma forward_fails_unless_rgb:
  "num_in_channels m \<noteq> 3 \<Longrightarrow> \<exists>e. forward_shape m (b, c, h, w) = Inl e"
  by (simp add: forward_shape_def broadcast_shapes_def broadcast_dim_def mean_shape_def ebind_def
      conv2d_def)








text \<open>
  Claim C4 as stated fails: a block with three experts and \<open>topk = 5\<close> is constructed
  without an error.
\<close>

theorem topk_unchecked_counterexample:
  "MoEBlock_init 36 3 5 True ''exp'' 2 =
     Inr \<lparr> mb_in_ch = 36, use_shuffle = True, recursive = 2,
           moe_layer = \<lparr> experts = [\<lparr> ex_in_ch = 36, low_dim = 2 \<rparr>,
                                    \<lparr> ex_in_ch = 36, low_dim = 4 \<rparr>,
                                    \<lparr> ex_in_ch = 36, low_dim = 8 \<rparr>],
                         gate = \<lparr> rt_in_ch = 36, rt_num_experts = 3 \<rparr>,
                         num_expert = 5 \<rparr> \<rparr>"
  by code_simp

text \<open>
  Claim C4, as amended. With a supported growth policy and a positive channel count,
  constructing the block with zero experts fails at construction with the assertion of
  \<open>MoELayer.__init__\<close>; with a channel count of zero the constructor of the first
  depthwise convolution raises before that. Constructing the block with \<open>topk\<close> above
  a positive number of experts succeeds and stores \<open>topk\<close>; the failure comes at
  inference, where \<open>torch.topk\<close> raises on every input of the block's channel count.
\<close>

theorem moe_block_construction:
  assumes "grow_func lr_space = Inr grow" "0 < in_ch"
  shows "MoEBlock_init in_ch 0 topk sh lr_space rec = Inl AssertionError \<and>
         MoEBlock_init 0 num_experts topk sh lr_space rec = Inl ValueError \<and>
         (0 < num_experts \<and> num_experts < topk \<longrightarrow>
            (\<exists>mb. MoEBlock_init in_ch num_experts topk sh lr_space rec = Inr mb \<and>
                  num_expert (moe_layer mb) = topk \<and>
                  (0 < h \<and> 0 < w \<longrightarrow>
                     MoELayer_forward tr (moe_layer mb) (b, in_ch, h, w) k = Inl TopkRangeError)))"
proof -
  have zero: "MoEBlock_init in_ch 0 topk sh lr_space rec = Inl AssertionError"
    using assms
    by (simp add: MoEBlock_init_def Conv2d_init_def StripedConv2d_init_def Router_init_def
        MoELayer_init_def py_range_def ebind_def)
  have nochan: "MoEBlock_init 0 num_experts topk sh lr_space rec = Inl ValueError"
    by (simp add: MoEBlock_init_def Conv2d_init_def ebind_def)
  have pos: "\<exists>mb. MoEBlock_init in_ch num_experts topk sh lr_space rec = Inr mb \<and>
                  num_expert (moe_layer mb) = topk \<and>
                  (0 < h \<and> 0 < w \<longrightarrow>
                     MoELayer_forward tr (moe_layer mb) (b, in_ch, h, w) k = Inl TopkRangeError)"
    if "0 < num_experts" "num_experts < topk"
    using assms that
    by (simp add: MoEBlock_init_def Conv2d_init_def StripedConv2d_init_def Router_init_def
        MoELayer_init_def py_range_def ebind_def MoELayer_forward_def Router_forward_def)
  show ?thesis using zero nochan pos by blast
qed

theorem moe_block_construction_witness:
  "grow_func ''exp'' = Inr (\<lambda>i. 2 ^ (i + 1)) \<and> (0::nat) < 36 \<and>
   MoEBlock_init 36 0 5 True ''exp'' 2 = Inl AssertionError \<and>
   (\<exists>mb. MoEBlock_init 36 3 5 True ''exp'' 2 = Inr mb \<and> num_expert (moe_layer mb) = 5 \<and>
         MoELayer_forward False (moe_layer mb) (1, 36, 16, 16) (1, 36, 16, 16) = Inl TopkRangeError)"
proof -
  have g: "grow_func ''exp'' = Inr (\<lambda>i. 2 ^ (i + 1))" by (simp add: grow_func_def)
  have p: "(0::nat) < 36" by simp
  show ?thesis
    using g moe_block_construction[OF g p, where topk = 5 and sh = True and rec = 2
        and num_experts = 3 and h = 16 and w = 16 and tr = False and b = 1 and k = "(1, 36, 16, 16)"]
    by simp
qed

section \<open>The shape of the output\<close>


lemma ebind_Inl [simp]: "ebind (Inl e) f = Inl e"
  by (simp add: ebind_def)



lemma broadcast_dim_same [simp]: "broadcast_dim a a = Inr a"
  by (simp add: broadcast_dim_def)

lemma broadcast_dim_one_left [simp]: "broadcast_dim (Suc 0) a = Inr a"
  by (simp add: broadcast_dim_def)

lemma broadcast_dim_one_right [simp]: "broadcast_dim a (Suc 0) = Inr a"
  by (simp add: broadcast_dim_def)

































section \<open>The execution of the tiled scheduler\<close>

























section \<open>Tiled against whole-image inference\<close>













end
